theory Spec2Isabelle
  imports Complex_Main "HOL-Library.Sublist"
begin

section \<open>Fetch Retry: the retry, backoff and timeout engine of \<open>src/index.js\<close>\<close>

text \<open>
  The development embeds the decision engine of the extension: the delay calculator
  \<open>getRetryDelay\<close>, the validity check \<open>isResponseInvalid\<close>, the two notifiers, the helper
  \<open>handleRetry\<close> and the patched \<open>window.fetch\<close> with its retry loop.

  Conventions of the embedding.
  \<^item> JavaScript numbers are IEEE doubles; the delays are modelled as exact reals, the
    counters and the timeouts in milliseconds as naturals. Rounding, \<open>NaN\<close> and infinities
    are outside the model.
  \<^item> \<open>fetchRetrySettings\<close> is a module-level object that the settings panel may change at
    any time; a call of the patched fetch is modelled under one fixed value of it.
  \<^item> Console logging has no effect on the control flow and is left out.
  \<^item> Everything the platform decides (how the transport settles and when, what the
    caller's signal reports when the code reads it) is an input of the model.
\<close>

subsection \<open>Settings, responses, errors\<close>

text \<open>The object \<open>fetchRetrySettings\<close> (lines 10-21).\<close>

record settings =
  enabled :: bool
  maxRetries :: nat
  retryDelay :: real
  rateLimitDelay :: real
  thinkingTimeout :: nat
  enableThinkingTimeout :: bool
  showErrorNotificationSetting :: bool
  streamInactivityTimeout :: nat
  minRetryDelay :: real
  debugMode :: bool

text \<open>
  A thrown value: the two properties of an error object that the code reads.
  \<open>new Error(m)\<close> has the name \<open>Error\<close>. A thrown value that is not an error object, such
  as a string, has neither property: \<open>name\<close> and \<open>message\<close> read as \<open>undefined\<close>, here the
  empty string, which equals none of the strings the code compares them with.
\<close>

datatype jserror = JSError (name: string) (message: string)

definition newError :: "string \<Rightarrow> jserror" where
  "newError m = JSError ''Error'' m"

text \<open>
  A response as far as the code looks at it: the status, the status text and the headers,
  a list of name and value pairs. The body is never read by the engine.
\<close>

record response =
  status :: nat
  statusText :: string
  headers :: "(string \<times> string) list"

text \<open>\<open>Response.ok\<close>: the status is in the range 200-299.\<close>

definition ok :: "response \<Rightarrow> bool" where
  "ok r = (200 \<le> status r \<and> status r \<le> 299)"

subsection \<open>Strings: case folding, \<open>includes\<close>, number formatting, \<open>parseInt\<close>\<close>

definition toLowerCase_char :: "char \<Rightarrow> char" where
  "toLowerCase_char c =
     (case map_of (zip ''ABCDEFGHIJKLMNOPQRSTUVWXYZ'' ''abcdefghijklmnopqrstuvwxyz'') c of
        Some l \<Rightarrow> l
      | None \<Rightarrow> c)"

definition toLowerCase :: "string \<Rightarrow> string" where
  "toLowerCase s = map toLowerCase_char s"

text \<open>\<open>String.prototype.includes\<close>: the argument occurs as a contiguous substring.\<close>

fun includes_str :: "string \<Rightarrow> string \<Rightarrow> bool" where
  "includes_str [] sub = (sub = [])"
| "includes_str (c # cs) sub = (prefix sub (c # cs) \<or> includes_str cs sub)"

text \<open>The decimal numeral of a natural number, as a template literal prints a status.\<close>

definition digit_char :: "nat \<Rightarrow> char" where
  "digit_char d = ''0123456789'' ! d"

fun string_of_nat :: "nat \<Rightarrow> string" where
  "string_of_nat n =
     (if n < 10 then [digit_char n]
      else string_of_nat (n div 10) @ [digit_char (n mod 10)])"

declare string_of_nat.simps [simp del]

text \<open>
  \<open>parseInt\<close> with no radix argument: leading white space is skipped, a sign is read, a
  prefix \<open>0x\<close> or \<open>0X\<close> selects radix 16, and the longest run of digits is converted. With no
  digit the result is \<open>NaN\<close>, here \<open>None\<close>. A character is one byte of a header value, so
  the white space is the one of the first 256 code points.
\<close>

definition isWhiteSpace :: "char \<Rightarrow> bool" where
  "isWhiteSpace c = ((of_char c :: nat) \<in> {9, 10, 11, 12, 13, 32, 160})"

definition digitValue :: "nat \<Rightarrow> char \<Rightarrow> nat option" where
  "digitValue radix c =
     (let n = (of_char c :: nat);
          v = (if 48 \<le> n \<and> n \<le> 57 then Some (n - 48)
               else if 97 \<le> n \<and> n \<le> 122 then Some (n - 87)
               else if 65 \<le> n \<and> n \<le> 90 then Some (n - 55)
               else None)
      in case v of None \<Rightarrow> None | Some d \<Rightarrow> if d < radix then Some d else None)"

fun parseDigits :: "nat \<Rightarrow> string \<Rightarrow> nat option \<Rightarrow> nat option" where
  "parseDigits radix [] acc = acc"
| "parseDigits radix (c # cs) acc =
     (case digitValue radix c of
        None \<Rightarrow> acc
      | Some d \<Rightarrow> parseDigits radix cs (Some ((case acc of None \<Rightarrow> 0 | Some a \<Rightarrow> a) * radix + d)))"

definition parseInt :: "string \<Rightarrow> int option" where
  "parseInt str =
     (let s = dropWhile isWhiteSpace str;
          neg = (case s of c # _ \<Rightarrow> c = CHR ''-'' | [] \<Rightarrow> False);
          s = (case s of c # cs \<Rightarrow> if c = CHR ''-'' \<or> c = CHR ''+'' then cs else s | [] \<Rightarrow> s);
          hex = (take 2 s = ''0x'' \<or> take 2 s = ''0X'');
          radix = (if hex then 16 else 10);
          s = (if hex then drop 2 s else s)
      in case parseDigits radix s None of
           None \<Rightarrow> None
         | Some n \<Rightarrow> Some (if neg then - int n else int n))"

subsection \<open>Headers\<close>

text \<open>
  \<open>Headers.has\<close> and \<open>Headers.get\<close> compare names without regard to case; \<open>get\<close> joins the
  values of a repeated header with a comma and a space, and gives \<open>null\<close> (here \<open>None\<close>)
  for an absent one.
\<close>

definition headers_values :: "(string \<times> string) list \<Rightarrow> string \<Rightarrow> string list" where
  "headers_values hs n = map snd (filter (\<lambda>kv. toLowerCase (fst kv) = toLowerCase n) hs)"

fun join_values :: "string list \<Rightarrow> string" where
  "join_values [] = []"
| "join_values [v] = v"
| "join_values (v # w # vs) = v @ '', '' @ join_values (w # vs)"

definition headers_has :: "(string \<times> string) list \<Rightarrow> string \<Rightarrow> bool" where
  "headers_has hs n = (headers_values hs n \<noteq> [])"

definition headers_get :: "(string \<times> string) list \<Rightarrow> string \<Rightarrow> string option" where
  "headers_get hs n = (if headers_has hs n then Some (join_values (headers_values hs n)) else None)"

subsection \<open>The delay calculator\<close>

text \<open>
  \<open>getRetryDelay\<close> (lines 591-617). The variable \<open>delay\<close> is assigned up to four times;
  each \<open>let\<close> below is one of the assignments, in the order of the source. The response may
  be \<open>undefined\<close>, here \<open>None\<close>. A header value \<open>null\<close> is printed as the string \<open>null\<close> by
  \<open>parseInt\<close>, which has no digit.
\<close>

definition getRetryDelay :: "settings \<Rightarrow> jserror \<Rightarrow> response option \<Rightarrow> nat \<Rightarrow> real" where
  "getRetryDelay s error response attempt =
     (let delay = minRetryDelay s;
          delay =
            (case response of
               None \<Rightarrow> delay
             | Some r \<Rightarrow>
                 if headers_has (headers r) ''Retry-After'' then
                   (let retryAfter = headers_get (headers r) ''Retry-After'';
                        seconds = parseInt (case retryAfter of None \<Rightarrow> ''null'' | Some v \<Rightarrow> v)
                    in case seconds of
                         None \<Rightarrow> delay
                       | Some sec \<Rightarrow> max delay (min (real_of_int sec * 1000) 30000))
                 else delay);
          delay =
            (case response of
               None \<Rightarrow> delay
             | Some r \<Rightarrow>
                 if status r = 429 then max delay (rateLimitDelay s * (3 / 2) ^ attempt)
                 else delay);
          delay = max delay (retryDelay s * (6 / 5) ^ attempt)
      in delay)"

text \<open>
  The algorithm as section 4.2 of the specification words it, for comparison with the
  function above: a floor that starts at \<open>minRetryDelay\<close> and is raised by each layer that
  applies. \<open>retryAfterSeconds\<close> is the number of seconds a response's \<open>Retry-After\<close> header
  parses to, if any.
\<close>

definition retryAfterSeconds :: "response option \<Rightarrow> int option" where
  "retryAfterSeconds response =
     (case response of
        None \<Rightarrow> None
      | Some r \<Rightarrow> (case headers_get (headers r) ''Retry-After'' of
                    None \<Rightarrow> None
                  | Some v \<Rightarrow> parseInt v))"

definition isRateLimit :: "response option \<Rightarrow> bool" where
  "isRateLimit response = (case response of None \<Rightarrow> False | Some r \<Rightarrow> status r = 429)"

definition computeDelay_spec :: "settings \<Rightarrow> response option \<Rightarrow> nat \<Rightarrow> real" where
  "computeDelay_spec s response attempt =
     (let floor1 = minRetryDelay s;
          floor2 = (case retryAfterSeconds response of
                      None \<Rightarrow> floor1
                    | Some sec \<Rightarrow> max floor1 (min (real_of_int sec * 1000) 30000));
          floor3 = (if isRateLimit response
                    then max floor2 (rateLimitDelay s * (3 / 2) ^ attempt) else floor2)
      in max floor3 (retryDelay s * (6 / 5) ^ attempt))"

subsection \<open>Effects of a call\<close>

text \<open>
  What a call of the patched fetch does to the outside, in order: a call of the original
  fetch (with the attempt number it belongs to), a call of \<open>showRetryToast\<close> with its three
  arguments, the wait of \<open>handleRetry\<close> with its duration in milliseconds, and a call of
  \<open>showErrorNotification\<close> with its two arguments (\<open>None\<close> is \<open>undefined\<close>).
\<close>

datatype event =
    OriginalFetch nat
  | ShowRetryToast nat nat jserror
  | Sleep real
  | ShowErrorNotification "jserror option" "response option"

fun isOriginalFetch :: "event \<Rightarrow> bool" where
  "isOriginalFetch (OriginalFetch k) = True"
| "isOriginalFetch ev = False"

fun isShowRetryToast :: "event \<Rightarrow> bool" where
  "isShowRetryToast (ShowRetryToast a m e) = True"
| "isShowRetryToast ev = False"

fun isSleep :: "event \<Rightarrow> bool" where
  "isSleep (Sleep d) = True"
| "isSleep ev = False"

fun isShowErrorNotification :: "event \<Rightarrow> bool" where
  "isShowErrorNotification (ShowErrorNotification e r) = True"
| "isShowErrorNotification ev = False"

text \<open>How a call settles: it returns a response or throws; \<open>Throw None\<close> throws \<open>undefined\<close>.\<close>

datatype final = Return response | Throw "jserror option"

subsection \<open>The notifiers\<close>

text \<open>The text of the retry toast for an error object, \<open>showRetryToast\<close> (lines 466-490).\<close>

definition showRetryToast :: "nat \<Rightarrow> nat \<Rightarrow> jserror \<Rightarrow> string" where
  "showRetryToast attempt maxRetries' error =
     (let retryNumber = attempt;
          msg = ''retry '' @ string_of_nat retryNumber @ ''/'' @ string_of_nat maxRetries';
          errorMessage = (if message error \<noteq> [] then message error
                          else if name error \<noteq> [] then name error
                          else ''Unknown error'')
      in msg @ '': '' @ errorMessage)"

text \<open>
  \<open>showErrorNotification\<close> (lines 508-549): nothing is shown when the setting is off;
  otherwise the kind of toast and its text.
\<close>

definition showErrorNotification ::
  "settings \<Rightarrow> jserror option \<Rightarrow> response option \<Rightarrow> (string \<times> string) option" where
  "showErrorNotification s error response =
     (if \<not> showErrorNotificationSetting s then None
      else Some (''error'',
        (case response of
           Some r \<Rightarrow>
             if status r = 429 then ''Rate limited (429): Too many requests''
             else if status r \<ge> 500 then
               ''Server error ('' @ string_of_nat (status r) @ ''): '' @ statusText r
             else if status r = 403 then ''Forbidden (403): Access denied''
             else ''HTTP '' @ string_of_nat (status r) @ '': '' @ statusText r
         | None \<Rightarrow>
             (case error of
                Some e \<Rightarrow>
                  if name e = ''TimeoutError'' then ''Timeout: AI thinking process exceeded limit''
                  else if name e = ''AbortError'' then ''Request aborted''
                  else ''Network error: '' @ message e
              | None \<Rightarrow> ''Fetch failed after all retries''))))"

subsection \<open>\<open>handleRetry\<close>\<close>

text \<open>
  \<open>handleRetry\<close> (lines 493-505): the toast, guarded by \<open>attempt > 0\<close>, then the delay and
  the wait; the result is the next attempt number. The effects are returned with it.
\<close>

definition handleRetry ::
  "settings \<Rightarrow> jserror \<Rightarrow> response option \<Rightarrow> nat \<Rightarrow> event list \<times> nat" where
  "handleRetry s error response attempt =
     (let toast = (if attempt > 0 then [ShowRetryToast attempt (maxRetries s) error] else []);
          delay = getRetryDelay s error response attempt
      in (toast @ [Sleep delay], attempt + 1))"

subsection \<open>The validity check\<close>

text \<open>
  \<open>streamTimeoutId\<close> (line 551) is declared with \<open>null\<close> and assigned nowhere in the file.
\<close>

definition streamTimeoutId :: "nat option" where
  "streamTimeoutId = None"

text \<open>How a block of statements ends: it falls through, returns a value or throws.\<close>

datatype 'a completion = Normal | Returned 'a | Thrown jserror

text \<open>The body of the \<open>try\<close> of \<open>isResponseInvalid\<close> (lines 573-578): one test of the variable.\<close>

definition streamCheck :: "nat option \<Rightarrow> (bool \<times> string) completion" where
  "streamCheck tid = (if tid \<noteq> None then Returned (False, []) else Normal)"

text \<open>
  \<open>isResponseInvalid\<close> (lines 553-588), with the variable \<open>streamTimeoutId\<close> as a parameter.
  The result is the pair of \<open>invalid\<close> and \<open>reason\<close>.
\<close>

definition generationEndpoints :: "string list" where
  "generationEndpoints = [''/completion'', ''/generate'', ''/chat/completions'', ''/run/predict'']"

definition isResponseInvalid ::
  "settings \<Rightarrow> nat option \<Rightarrow> response \<Rightarrow> string \<Rightarrow> bool \<times> string" where
  "isResponseInvalid s tid response url =
     (if streamInactivityTimeout s = 0 then (False, [])
      else
        let isGenerationUrl = list_ex (\<lambda>endpoint. includes_str url endpoint) generationEndpoints
        in if \<not> isGenerationUrl then (False, [])
           else (case streamCheck tid of
                   Returned res \<Rightarrow> res
                 | Thrown err \<Rightarrow>
                     if message err = ''Stream inactivity timeout''
                     then (True, ''stream_inactivity'') else (False, [])
                 | Normal \<Rightarrow> (False, [])))"

subsection \<open>One attempt\<close>

text \<open>
  What the platform contributes to one iteration of the loop:
  \<^item> \<open>abortedAtLoopHead\<close>: the value of \<open>originalSignal?.aborted\<close> at the head of the
    iteration (line 650); an absent signal reads as \<open>False\<close>;
  \<^item> \<open>fetchLatency\<close>: the milliseconds after which the promise of the original fetch
    settles, and \<open>fetchSettles\<close>: the error it rejects with or the response it resolves to;
  \<^item> \<open>abortedAtCatch\<close>: the value of \<open>originalSignal?.aborted\<close> in the \<open>catch\<close> clause
    (line 805).
\<close>

record attempt_env =
  abortedAtLoopHead :: bool
  fetchLatency :: nat
  fetchSettles :: "jserror + response"
  abortedAtCatch :: bool

text \<open>
  The timer of lines 700-711: \<open>timeoutPromise\<close> stays \<open>null\<close> (here \<open>None\<close>) unless
  \<open>enableThinkingTimeout\<close> is set; otherwise a timer of \<open>thinkingTimeout\<close> milliseconds is
  started, which rejects with the error below.
\<close>

definition timeoutPromise :: "settings \<Rightarrow> nat option" where
  "timeoutPromise s = (if enableThinkingTimeout s then Some (thinkingTimeout s) else None)"

definition timeoutError :: jserror where
  "timeoutError = JSError ''TimeoutError'' ''Thinking timeout reached''"

text \<open>
  Lines 713-715: with a timer, \<open>Promise.race\<close> settles with the rejection of the timer's
  callback (line 707) when the timer is due before the original fetch settles, and as the
  original fetch does otherwise (also when both are due at the same millisecond); with no
  timer the original fetch is awaited alone.
\<close>

definition raceResult :: "settings \<Rightarrow> attempt_env \<Rightarrow> jserror + response" where
  "raceResult s env =
     (case timeoutPromise s of
        None \<Rightarrow> fetchSettles env
      | Some ms \<Rightarrow> if ms < fetchLatency env then Inl timeoutError else fetchSettles env)"

subsection \<open>The retry loop\<close>

text \<open>The variables of the loop (lines 644-646) and the effects so far.\<close>

record retryState =
  attempt :: nat
  lastError :: "jserror option"
  lastResponse :: "response option"
  trace :: "event list"

text \<open>
  How one iteration ends: the function returns or throws (\<open>Done\<close>), the loop is left by
  \<open>break\<close>, or the next iteration starts.
\<close>

datatype step = Done final retryState | Break retryState | Next retryState

definition abortError :: jserror where
  "abortError = JSError ''AbortError'' ''Request aborted by user''"

text \<open>The assignment \<open>attempt = await handleRetry(error, response, attempt)\<close>.\<close>

definition awaitHandleRetry ::
  "settings \<Rightarrow> jserror \<Rightarrow> response option \<Rightarrow> retryState \<Rightarrow> retryState" where
  "awaitHandleRetry s error response st =
     (case handleRetry s error response (attempt st) of
        (evs, a) \<Rightarrow> st\<lparr>attempt := a, trace := trace st @ evs\<rparr>)"

text \<open>
  The \<open>catch\<close> clause (lines 785-829). \<open>shouldRetry\<close> and \<open>retryReason\<close> only feed the log:
  every path that does not rethrow reaches the test of the retry budget.
\<close>

definition catchClause :: "settings \<Rightarrow> attempt_env \<Rightarrow> retryState \<Rightarrow> jserror \<Rightarrow> step" where
  "catchClause s env st0 err =
     (let st = st0\<lparr>lastError := Some err\<rparr>;
          rethrow =
            (if name err = ''TimeoutError'' then False
             else if name err = ''AbortError'' then
               (abortedAtCatch env \<or> message err = ''User aborted''
                  \<or> message err = ''Request aborted by user'')
             else False)
      in if rethrow then Done (Throw (Some err)) st
         else if attempt st \<ge> maxRetries s then Break st
         else Next (awaitHandleRetry s err (lastResponse st) st))"

text \<open>
  The \<open>try\<close> block (lines 695-783): the original fetch is called, the race is awaited,
  and the result is classified by its status. A \<open>throw\<close> inside the block is caught by the
  \<open>catch\<close> clause of the same iteration.
\<close>

definition tryBlock :: "settings \<Rightarrow> string \<Rightarrow> attempt_env \<Rightarrow> retryState \<Rightarrow> step" where
  "tryBlock s url env st0 =
     (let st = st0\<lparr>trace := trace st0 @ [OriginalFetch (attempt st0)]\<rparr>
      in case raceResult s env of
           Inl err \<Rightarrow> catchClause s env st err
         | Inr result \<Rightarrow>
             let st = st\<lparr>lastResponse := Some result\<rparr>
             in if ok result then
                  (case isResponseInvalid s streamTimeoutId result url of
                     (invalid, reason) \<Rightarrow>
                       if invalid \<and> attempt st < maxRetries s then
                         Next (awaitHandleRetry s (newError (''Response invalid: '' @ reason))
                                 (Some result) st)
                       else Done (Return result) st)
                else if status result = 429 then
                  (if attempt st < maxRetries s then
                     Next (awaitHandleRetry s
                             (newError (''Rate limited (429): '' @ statusText result))
                             (Some result) st)
                   else Break (st\<lparr>lastError :=
                                    Some (newError (''Rate limited (429): '' @ statusText result)),
                                  lastResponse := Some result\<rparr>))
                else if status result \<ge> 500 then
                  (if attempt st < maxRetries s then
                     Next (awaitHandleRetry s
                             (newError (''Server error ('' @ string_of_nat (status result)
                                          @ ''): '' @ statusText result))
                             (Some result) st)
                   else Break (st\<lparr>lastError :=
                                    Some (newError (''Server error ('' @ string_of_nat (status result)
                                                      @ ''): '' @ statusText result)),
                                  lastResponse := Some result\<rparr>))
                else if status result \<ge> 400 then Done (Return result) st
                else catchClause s env st
                       (newError (''HTTP '' @ string_of_nat (status result)
                                    @ '': '' @ statusText result)))"

text \<open>The body of the \<open>while\<close> loop: the test of the caller's signal, then the attempt.\<close>

definition iteration :: "settings \<Rightarrow> string \<Rightarrow> attempt_env \<Rightarrow> retryState \<Rightarrow> step" where
  "iteration s url env st =
     (if abortedAtLoopHead env then Done (Throw (Some abortError)) st
      else tryBlock s url env st)"

text \<open>Lines 832-838, after the loop: the error notification, then \<open>throw lastError\<close>.\<close>

definition allAttemptsFailed :: "retryState \<Rightarrow> final \<times> event list" where
  "allAttemptsFailed st =
     (Throw (lastError st),
      trace st @ [ShowErrorNotification (lastError st) (lastResponse st)])"

text \<open>
  The loop \<open>while (attempt <= fetchRetrySettings.maxRetries)\<close> (lines 648-830). The
  platform's part in attempt \<open>k\<close> is \<open>envs k\<close>. Every iteration that continues has raised
  \<open>attempt\<close> by one, so the loop ends.
\<close>

function retryLoop ::
  "settings \<Rightarrow> string \<Rightarrow> (nat \<Rightarrow> attempt_env) \<Rightarrow> retryState \<Rightarrow> final \<times> event list" where
  "retryLoop s url envs st =
     (if attempt st \<le> maxRetries s then
        (case iteration s url (envs (attempt st)) st of
           Done res st' \<Rightarrow> (res, trace st')
         | Break st' \<Rightarrow> allAttemptsFailed st'
         | Next st' \<Rightarrow> retryLoop s url envs st')
      else allAttemptsFailed st)"
  by pat_completeness auto
termination
proof (relation "measure (\<lambda>(s, url, envs, st). Suc (maxRetries s) - attempt st)")
  show "wf (measure (\<lambda>(s, url, envs, st). Suc (maxRetries s) - attempt st))"
    by simp
next
  fix s :: settings and url :: string and envs :: "nat \<Rightarrow> attempt_env"
    and st st' :: retryState
  assume le: "attempt st \<le> maxRetries s"
    and nxt: "iteration s url (envs (attempt st)) st = Next st'"
  have handled: "attempt (awaitHandleRetry s e r t) = Suc (attempt t)" for e r t
    by (simp add: awaitHandleRetry_def handleRetry_def Let_def)
  have caught: "attempt t' = Suc (attempt t)"
    if "catchClause s (envs (attempt st)) t e = Next t'" for t t' e
    using that by (auto simp: catchClause_def Let_def handled split: if_splits)
  have "tryBlock s url (envs (attempt st)) st = Next st'"
    using nxt by (simp add: iteration_def split: if_splits)
  then have "attempt st' = Suc (attempt st)"
    by (auto simp: tryBlock_def Let_def handled dest!: caught
             split: sum.splits prod.splits if_splits)
  with le show "((s, url, envs, st'), (s, url, envs, st))
      \<in> measure (\<lambda>(s, url, envs, st). Suc (maxRetries s) - attempt st)"
    by simp
qed

declare retryLoop.simps [simp del]

subsection \<open>The patched \<open>window.fetch\<close>\<close>

text \<open>
  Lines 624-642: with the extension disabled, or with the caller's signal aborted at
  entry, the original fetch is called once with the caller's own arguments and its promise
  is returned as it is. Nothing is awaited between the test of line 639 and the first test
  of line 650, so both read the same value, \<open>abortedAtLoopHead (envs 0)\<close>.
\<close>

definition passThrough :: "attempt_env \<Rightarrow> final \<times> event list" where
  "passThrough env =
     ((case fetchSettles env of Inl err \<Rightarrow> Throw (Some err) | Inr r \<Rightarrow> Return r),
      [OriginalFetch 0])"

text \<open>The variables of the loop when a call enters it (lines 644-646).\<close>

definition initialState :: retryState where
  "initialState = \<lparr>attempt = 0, lastError = None, lastResponse = None, trace = []\<rparr>"

definition window_fetch ::
  "settings \<Rightarrow> string \<Rightarrow> (nat \<Rightarrow> attempt_env) \<Rightarrow> final \<times> event list" where
  "window_fetch s url envs =
     (if \<not> enabled s then passThrough (envs 0)
      else if abortedAtLoopHead (envs 0) then passThrough (envs 0)
      else retryLoop s url envs initialState)"

subsection \<open>Vocabulary of the properties\<close>

text \<open>
  The rejection of an attempt that the \<open>catch\<close> clause takes for the caller's abort
  (lines 804-805).
\<close>

definition callerAbort :: "attempt_env \<Rightarrow> jserror \<Rightarrow> bool" where
  "callerAbort env err =
     (name err = ''AbortError'' \<and>
      (abortedAtCatch env \<or> message err = ''User aborted''
         \<or> message err = ''Request aborted by user''))"

text \<open>
  A failed attempt of a retryable kind, read off the settled race: a response with
  status 429 or a status of 500 and above, or a rejection that is not the caller's abort
  (the timer's \<open>TimeoutError\<close>, a network failure, an abort that the caller did not cause).
\<close>

definition retryableFailure :: "attempt_env \<Rightarrow> jserror + response \<Rightarrow> bool" where
  "retryableFailure env outcome =
     (case outcome of
        Inr r \<Rightarrow> status r = 429 \<or> status r \<ge> 500
      | Inl err \<Rightarrow> \<not> callerAbort env err)"

text \<open>The error that the loop builds or catches for a failed attempt.\<close>

definition failureError :: "jserror + response \<Rightarrow> jserror" where
  "failureError outcome =
     (case outcome of
        Inl err \<Rightarrow> err
      | Inr r \<Rightarrow>
          if status r = 429 then newError (''Rate limited (429): '' @ statusText r)
          else if status r \<ge> 500 then
            newError (''Server error ('' @ string_of_nat (status r) @ ''): '' @ statusText r)
          else newError (''HTTP '' @ string_of_nat (status r) @ '': '' @ statusText r))"

text \<open>A status in the range 400-499 other than 429.\<close>

definition clientError :: "response \<Rightarrow> bool" where
  "clientError r = (400 \<le> status r \<and> status r < 500 \<and> status r \<noteq> 429)"

text \<open>A status that is neither a success nor 400 and above.\<close>

definition unexpectedStatus :: "response \<Rightarrow> bool" where
  "unexpectedStatus r = (\<not> ok r \<and> status r < 400)"

subsection \<open>Concrete settings, responses and servers\<close>

text \<open>The initial value of \<open>fetchRetrySettings\<close> (lines 10-21).\<close>

definition defaultSettings :: settings where
  "defaultSettings =
     \<lparr>enabled = True, maxRetries = 5, retryDelay = 5000, rateLimitDelay = 5000,
      thinkingTimeout = 60000, enableThinkingTimeout = True,
      showErrorNotificationSetting = True, streamInactivityTimeout = 30000,
      minRetryDelay = 0, debugMode = False\<rparr>"

definition plainResponse :: "nat \<Rightarrow> string \<Rightarrow> response" where
  "plainResponse code txt = \<lparr>status = code, statusText = txt, headers = []\<rparr>"

definition retryAfterResponse :: "nat \<Rightarrow> string \<Rightarrow> string \<Rightarrow> response" where
  "retryAfterResponse code txt secs =
     \<lparr>status = code, statusText = txt, headers = [(''retry-after'', secs)]\<rparr>"

definition networkError :: jserror where
  "networkError = JSError ''TypeError'' ''Failed to fetch''"

text \<open>An attempt that settles after 100 ms while the caller's signal stays quiet.\<close>

definition settlesWith :: "jserror + response \<Rightarrow> attempt_env" where
  "settlesWith outcome =
     \<lparr>abortedAtLoopHead = False, fetchLatency = 100, fetchSettles = outcome,
      abortedAtCatch = False\<rparr>"

text \<open>The policy and the server of the scenario of section 8 of the specification.\<close>

definition scenarioPolicy :: settings where
  "scenarioPolicy =
     defaultSettings\<lparr>maxRetries := 2, retryDelay := 1000, rateLimitDelay := 1000,
                     minRetryDelay := 0\<rparr>"

definition scenarioServer :: "nat \<Rightarrow> attempt_env" where
  "scenarioServer k =
     settlesWith (Inr (if k < 3 then plainResponse 429 ''Too Many Requests''
                       else plainResponse 200 ''OK''))"

text \<open>
  A server that never recovers: the first attempt outlasts the thinking timeout, the
  second fails in the network, every later one is answered 503.
\<close>

definition failingServer :: "nat \<Rightarrow> attempt_env" where
  "failingServer k =
     (if k = 0 then (settlesWith (Inr (plainResponse 200 ''OK'')))\<lparr>fetchLatency := 70000\<rparr>
      else if k = 1 then settlesWith (Inl networkError)
      else settlesWith (Inr (plainResponse 503 ''Service Unavailable'')))"

definition forbiddenServer :: "nat \<Rightarrow> attempt_env" where
  "forbiddenServer k = settlesWith (Inr (plainResponse 403 ''Forbidden''))"

text \<open>
  The value that a fetch rejects with when its signal is aborted with a reason: the
  reason itself. The handler of lines 656-659 aborts the attempt's controller with the
  string \<open>User aborted\<close>, so the rejection is that string, a value with no \<open>name\<close> and no
  \<open>message\<close>.
\<close>

definition userAbortReason :: jserror where
  "userAbortReason = JSError [] []"

text \<open>
  Two answers 500, then the caller aborts while the third attempt is in flight: the
  handler aborts the attempt, the original fetch rejects with the reason, and the signal
  reads aborted from then on.
\<close>

definition abortAtThird :: "nat \<Rightarrow> attempt_env" where
  "abortAtThird k =
     (if k < 2 then settlesWith (Inr (plainResponse 500 ''Internal Server Error''))
      else \<lparr>abortedAtLoopHead = (k > 2), fetchLatency = 100,
            fetchSettles = Inl userAbortReason, abortedAtCatch = True\<rparr>)"

definition twoRetrySettings :: settings where
  "twoRetrySettings = defaultSettings\<lparr>maxRetries := 2\<rparr>"

definition afterTwoFailures :: retryState where
  "afterTwoFailures =
     \<lparr>attempt = 2, lastError = None,
      lastResponse = Some (plainResponse 500 ''Internal Server Error''),
      trace = [OriginalFetch 0, Sleep 5000, OriginalFetch 1,
               ShowRetryToast 1 5 (newError ''Server error (500): Internal Server Error''),
               Sleep 6000]\<rparr>"

definition zeroTimeoutSettings :: settings where
  "zeroTimeoutSettings = defaultSettings\<lparr>thinkingTimeout := 0\<rparr>"

definition oneRetrySettings :: settings where
  "oneRetrySettings = defaultSettings\<lparr>maxRetries := 1\<rparr>"

definition failsOnce :: "nat \<Rightarrow> attempt_env" where
  "failsOnce k =
     settlesWith (Inr (if k = 0 then plainResponse 500 ''Internal Server Error''
                       else plainResponse 200 ''OK''))"

text \<open>A 429 with \<open>Retry-After: 20\<close>, then a 304, then a success.\<close>

definition staleServer :: "nat \<Rightarrow> attempt_env" where
  "staleServer k =
     settlesWith (Inr (if k = 0 then retryAfterResponse 429 ''Too Many Requests'' ''20''
                       else if k = 1 then plainResponse 304 ''Not Modified''
                       else plainResponse 200 ''OK''))"

definition afterRateLimit :: retryState where
  "afterRateLimit =
     \<lparr>attempt = 1, lastError = None,
      lastResponse = Some (retryAfterResponse 429 ''Too Many Requests'' ''20''),
      trace = [OriginalFetch 0, Sleep 20000]\<rparr>"

section \<open>Properties\<close>

subsection \<open>Unfolding the loop\<close>

lemmas run_defs = window_fetch_def initialState_def iteration_def tryBlock_def catchClause_def
  awaitHandleRetry_def handleRetry_def allAttemptsFailed_def raceResult_def timeoutPromise_def
  isResponseInvalid_def ok_def newError_def passThrough_def

lemmas eval_defs = run_defs retryLoop.simps defaultSettings_def plainResponse_def settlesWith_def
  getRetryDelay_def headers_get_def headers_has_def headers_values_def toLowerCase_def
  toLowerCase_char_def parseInt_def isWhiteSpace_def digitValue_def Let_def
  generationEndpoints_def string_of_nat.simps digit_char_def retryAfterResponse_def

lemma retryLoop_Done:
  "attempt st \<le> maxRetries s \<Longrightarrow> iteration s url (envs (attempt st)) st = Done res st'
   \<Longrightarrow> retryLoop s url envs st = (res, trace st')"
  by (subst retryLoop.simps) simp

lemma retryLoop_Break:
  "attempt st \<le> maxRetries s \<Longrightarrow> iteration s url (envs (attempt st)) st = Break st'
   \<Longrightarrow> retryLoop s url envs st = allAttemptsFailed st'"
  by (subst retryLoop.simps) simp

lemma retryLoop_Next:
  "attempt st \<le> maxRetries s \<Longrightarrow> iteration s url (envs (attempt st)) st = Next st'
   \<Longrightarrow> retryLoop s url envs st = retryLoop s url envs st'"
  by (subst retryLoop.simps) simp

lemma filter_handleRetry [simp]:
  "filter isOriginalFetch (fst (handleRetry s e r a)) = []"
  "filter isShowErrorNotification (fst (handleRetry s e r a)) = []"
  by (simp_all add: handleRetry_def Let_def)

lemma awaitHandleRetry_fields [simp]:
  "attempt (awaitHandleRetry s e r st) = Suc (attempt st)"
  "lastError (awaitHandleRetry s e r st) = lastError st"
  "lastResponse (awaitHandleRetry s e r st) = lastResponse st"
  "trace (awaitHandleRetry s e r st) = trace st @ fst (handleRetry s e r (attempt st))"
  by (simp_all add: awaitHandleRetry_def handleRetry_def Let_def)

text \<open>A retryable failure with budget left: the iteration goes through \<open>handleRetry\<close>.\<close>

lemma iteration_retryable_Next:
  assumes "\<not> abortedAtLoopHead env" and "retryableFailure env (raceResult s env)"
    and "attempt st < maxRetries s"
  shows "\<exists>st'. iteration s url env st = Next st' \<and> attempt st' = Suc (attempt st)
     \<and> trace st' = trace st @ [OriginalFetch (attempt st)]
          @ fst (handleRetry s (failureError (raceResult s env)) (lastResponse st') (attempt st))
     \<and> lastResponse st' =
          (case raceResult s env of Inl err \<Rightarrow> lastResponse st | Inr r \<Rightarrow> Some r)"
  using assms
  by (auto simp: iteration_def tryBlock_def catchClause_def retryableFailure_def
        callerAbort_def failureError_def ok_def Let_def
      split: sum.splits prod.splits)

text \<open>A retryable failure on the last attempt: the loop is left with the error recorded.\<close>

lemma iteration_retryable_Break:
  assumes "\<not> abortedAtLoopHead env" and "retryableFailure env (raceResult s env)"
    and "attempt st = maxRetries s"
  shows "\<exists>st'. iteration s url env st = Break st'
     \<and> trace st' = trace st @ [OriginalFetch (attempt st)]
     \<and> lastError st' = Some (failureError (raceResult s env))
     \<and> lastResponse st' =
          (case raceResult s env of Inl err \<Rightarrow> lastResponse st | Inr r \<Rightarrow> Some r)"
  using assms
  by (auto simp: iteration_def tryBlock_def catchClause_def retryableFailure_def
        callerAbort_def failureError_def ok_def Let_def
      split: sum.splits prod.splits)

text \<open>
  From any state of the loop, if every remaining attempt fails retryably, the loop
  issues one original fetch per remaining attempt number and ends in the terminal failure.
\<close>

lemma retryLoop_all_fail:
  assumes "\<forall>k. attempt st \<le> k \<and> k \<le> maxRetries s \<longrightarrow>
             \<not> abortedAtLoopHead (envs k) \<and> retryableFailure (envs k) (raceResult s (envs k))"
    and "attempt st \<le> maxRetries s"
  shows "\<exists>tr r. retryLoop s url envs st =
            (Throw (Some (failureError (raceResult s (envs (maxRetries s))))), tr)
        \<and> filter isOriginalFetch tr =
            filter isOriginalFetch (trace st) @ map OriginalFetch [attempt st..<Suc (maxRetries s)]
        \<and> filter isShowErrorNotification tr =
            filter isShowErrorNotification (trace st)
              @ [ShowErrorNotification (Some (failureError (raceResult s (envs (maxRetries s))))) r]
        \<and> tr \<noteq> [] \<and> isShowErrorNotification (last tr)"
  using assms
proof (induction "maxRetries s - attempt st" arbitrary: st)
  case 0
  then have eq: "attempt st = maxRetries s" by simp
  from 0 eq have fails: "\<not> abortedAtLoopHead (envs (attempt st))"
      "retryableFailure (envs (attempt st)) (raceResult s (envs (attempt st)))" by auto
  from iteration_retryable_Break [OF fails eq, of url] obtain st' where
    it: "iteration s url (envs (attempt st)) st = Break st'"
    and tr: "trace st' = trace st @ [OriginalFetch (attempt st)]"
    and le: "lastError st' = Some (failureError (raceResult s (envs (attempt st))))"
    by blast
  have "retryLoop s url envs st = allAttemptsFailed st'"
    using retryLoop_Break [where envs = envs and st = st and s = s and url = url and st' = st']
      it eq
    by simp
  then show ?case using tr le eq
    by (simp add: allAttemptsFailed_def)
next
  case (Suc n)
  then have lt: "attempt st < maxRetries s" by simp
  from Suc.prems lt have fails: "\<not> abortedAtLoopHead (envs (attempt st))"
      "retryableFailure (envs (attempt st)) (raceResult s (envs (attempt st)))" by auto
  from iteration_retryable_Next [OF fails lt, of url] obtain st' where
    it: "iteration s url (envs (attempt st)) st = Next st'"
    and at: "attempt st' = Suc (attempt st)"
    and tr: "trace st' = trace st @ [OriginalFetch (attempt st)]
          @ fst (handleRetry s (failureError (raceResult s (envs (attempt st))))
                   (lastResponse st') (attempt st))"
    by blast
  have step: "retryLoop s url envs st = retryLoop s url envs st'"
    using retryLoop_Next [where envs = envs and st = st and s = s and url = url and st' = st']
      it lt
    by simp
  have n: "n = maxRetries s - attempt st'" using Suc.hyps(2) at by simp
  have pre: "\<forall>k. attempt st' \<le> k \<and> k \<le> maxRetries s \<longrightarrow>
             \<not> abortedAtLoopHead (envs k) \<and> retryableFailure (envs k) (raceResult s (envs k))"
    using Suc.prems(1) at by simp
  have le': "attempt st' \<le> maxRetries s" using at lt by simp
  from Suc.hyps(1) [OF n pre le'] obtain tr' r where
    res: "retryLoop s url envs st' =
            (Throw (Some (failureError (raceResult s (envs (maxRetries s))))), tr')"
    and f: "filter isOriginalFetch tr' =
            filter isOriginalFetch (trace st')
              @ map OriginalFetch [attempt st'..<Suc (maxRetries s)]"
    and e: "filter isShowErrorNotification tr' =
            filter isShowErrorNotification (trace st')
              @ [ShowErrorNotification
                   (Some (failureError (raceResult s (envs (maxRetries s))))) r]"
    and l: "tr' \<noteq> []" "isShowErrorNotification (last tr')"
    by blast
  have up: "[attempt st..<Suc (maxRetries s)]
      = attempt st # [Suc (attempt st)..<Suc (maxRetries s)]"
    using lt by (simp add: upt_conv_Cons)
  show ?case
    using step res f e l tr at up by auto
qed

lemma iteration_clientError:
  "\<not> abortedAtLoopHead env \<Longrightarrow> raceResult s env = Inr r \<Longrightarrow> clientError r \<Longrightarrow>
   iteration s url env st =
     Done (Return r)
       (st\<lparr>trace := trace st @ [OriginalFetch (attempt st)], lastResponse := Some r\<rparr>)"
  by (auto simp: iteration_def tryBlock_def clientError_def ok_def Let_def)

lemma parseInt_10: "parseInt ''10'' = Some 10"
  by (simp add: parseInt_def isWhiteSpace_def digitValue_def)

lemma raceResult_settlesWith:
  "raceResult defaultSettings (settlesWith outcome) = outcome"
  by (simp add: raceResult_def timeoutPromise_def defaultSettings_def settlesWith_def)

lemma quiet_settlesWith: "\<not> abortedAtLoopHead (settlesWith outcome)"
  by (simp add: settlesWith_def)

subsection \<open>Exhaustion of the retry budget\<close>

text \<open>
  Claim C1. With the extension enabled and \<open>maxRetries = N\<close>, a call whose caller never
  aborts and whose every attempt fails retryably (429, a status of 500 and above, the
  thinking timeout, a network failure) calls the original fetch exactly \<open>N + 1\<close> times, for
  the attempt numbers \<open>0, ..., N\<close>; \<open>showErrorNotification\<close> is then called once, as the last
  effect of the call, with the error of the last attempt, and that error is thrown.
\<close>

theorem permanent_failure_attempts:
  assumes "enabled s"
    and "\<forall>k \<le> maxRetries s.
           \<not> abortedAtLoopHead (envs k) \<and> retryableFailure (envs k) (raceResult s (envs k))"
  shows "fst (window_fetch s url envs)
       = Throw (Some (failureError (raceResult s (envs (maxRetries s)))))
    \<and> filter isOriginalFetch (snd (window_fetch s url envs))
       = map OriginalFetch [0..<Suc (maxRetries s)]
    \<and> length (filter isOriginalFetch (snd (window_fetch s url envs))) = maxRetries s + 1
    \<and> (\<exists>r. filter isShowErrorNotification (snd (window_fetch s url envs))
          = [ShowErrorNotification
               (Some (failureError (raceResult s (envs (maxRetries s))))) r])
    \<and> isShowErrorNotification (last (snd (window_fetch s url envs)))"
proof -
  have quiet: "\<not> abortedAtLoopHead (envs 0)"
    using assms(2) by simp
  have wf: "window_fetch s url envs = retryLoop s url envs initialState"
    using assms(1) quiet by (simp add: window_fetch_def)
  have "\<forall>k. attempt initialState \<le> k \<and> k \<le> maxRetries s \<longrightarrow>
             \<not> abortedAtLoopHead (envs k) \<and> retryableFailure (envs k) (raceResult s (envs k))"
    using assms(2) by simp
  moreover have "attempt initialState \<le> maxRetries s"
    by (simp add: initialState_def)
  ultimately obtain tr r where
    "retryLoop s url envs initialState
       = (Throw (Some (failureError (raceResult s (envs (maxRetries s))))), tr)"
    "filter isOriginalFetch tr = filter isOriginalFetch (trace initialState)
       @ map OriginalFetch [attempt initialState..<Suc (maxRetries s)]"
    "filter isShowErrorNotification tr = filter isShowErrorNotification (trace initialState)
       @ [ShowErrorNotification (Some (failureError (raceResult s (envs (maxRetries s))))) r]"
    "isShowErrorNotification (last tr)"
    using retryLoop_all_fail [where st = initialState and s = s and envs = envs and url = url]
    by blast
  then show ?thesis
    using wf by (simp add: initialState_def del: upt_Suc)
qed

text \<open>
  Claim C1, at a concrete input: with \<open>maxRetries = 2\<close>, a timeout, a network failure and
  a 503 give three calls of the original fetch and the server error of the last attempt.
\<close>

theorem permanent_failure_attempts_witness:
  "fst (window_fetch scenarioPolicy ''/api/ping'' failingServer)
     = Throw (Some (newError ''Server error (503): Service Unavailable''))
   \<and> filter isOriginalFetch (snd (window_fetch scenarioPolicy ''/api/ping'' failingServer))
     = [OriginalFetch 0, OriginalFetch 1, OriginalFetch 2]
   \<and> length (filter isShowErrorNotification
        (snd (window_fetch scenarioPolicy ''/api/ping'' failingServer))) = 1"
proof -
  have en: "enabled scenarioPolicy" and mx: "maxRetries scenarioPolicy = 2"
    by (simp_all add: scenarioPolicy_def defaultSettings_def)
  have fails: "\<forall>k \<le> maxRetries scenarioPolicy.
      \<not> abortedAtLoopHead (failingServer k)
      \<and> retryableFailure (failingServer k) (raceResult scenarioPolicy (failingServer k))"
    by (simp add: failingServer_def scenarioPolicy_def defaultSettings_def settlesWith_def
        raceResult_def timeoutPromise_def retryableFailure_def callerAbort_def
        timeoutError_def networkError_def plainResponse_def)
  have err: "failureError (raceResult scenarioPolicy (failingServer (maxRetries scenarioPolicy)))
      = newError ''Server error (503): Service Unavailable''"
    by (simp add: failingServer_def scenarioPolicy_def defaultSettings_def settlesWith_def
        raceResult_def timeoutPromise_def failureError_def plainResponse_def
        string_of_nat.simps digit_char_def)
  have upt: "[0..<Suc (maxRetries scenarioPolicy)] = [0, 1, 2]"
    by (simp add: mx upt_rec)
  show ?thesis
    using permanent_failure_attempts [OF en fails, of "''/api/ping''"]
    unfolding err upt by auto
qed

subsection \<open>The delay calculator\<close>

text \<open>
  Claim C2. For every error, response and attempt number, \<open>getRetryDelay\<close> returns the
  layered maximum of the specification: a floor that starts at \<open>minRetryDelay\<close>, is raised
  to \<open>min(seconds * 1000, 30000)\<close> when the response has a \<open>Retry-After\<close> header that parses
  to an integer, is raised to \<open>rateLimitDelay * 1.5^attempt\<close> when the status is 429, and is
  finally raised to \<open>retryDelay * 1.2^attempt\<close>. The result is never below \<open>minRetryDelay\<close>,
  and with the header \<open>Retry-After: 10\<close> it is at least 10000.
\<close>

theorem getRetryDelay_layered_maximum:
  "getRetryDelay s e resp a = computeDelay_spec s resp a
   \<and> minRetryDelay s \<le> getRetryDelay s e resp a
   \<and> retryDelay s * (6 / 5) ^ a \<le> getRetryDelay s e resp a
   \<and> (\<forall>r. resp = Some r \<and> headers_get (headers r) ''Retry-After'' = Some ''10''
        \<longrightarrow> 10000 \<le> getRetryDelay s e resp a)"
proof (intro conjI allI impI)
  show "getRetryDelay s e resp a = computeDelay_spec s resp a"
    by (auto simp: getRetryDelay_def computeDelay_spec_def retryAfterSeconds_def
          isRateLimit_def headers_get_def Let_def
        split: option.splits)
  show "minRetryDelay s \<le> getRetryDelay s e resp a"
    by (auto simp: getRetryDelay_def Let_def split: option.splits)
  show "retryDelay s * (6 / 5) ^ a \<le> getRetryDelay s e resp a"
    by (auto simp: getRetryDelay_def Let_def split: option.splits)
next
  fix r
  assume "resp = Some r \<and> headers_get (headers r) ''Retry-After'' = Some ''10''"
  then show "10000 \<le> getRetryDelay s e resp a"
    by (auto simp: getRetryDelay_def Let_def headers_get_def parseInt_10
        split: option.splits if_splits)
qed

text \<open>
  Claim C2, at a concrete input: a 503 with \<open>Retry-After: 10\<close> on the second attempt, where
  the generic schedule alone gives 6000.
\<close>

theorem getRetryDelay_layered_maximum_witness:
  "headers_get (headers (retryAfterResponse 503 ''Service Unavailable'' ''10'')) ''Retry-After''
     = Some ''10''
   \<and> retryDelay defaultSettings * (6 / 5) ^ 1 = 6000
   \<and> getRetryDelay defaultSettings networkError
        (Some (retryAfterResponse 503 ''Service Unavailable'' ''10'')) 1 = 10000"
proof -
  let ?resp = "retryAfterResponse 503 ''Service Unavailable'' ''10''"
  have h: "headers_get (headers ?resp) ''Retry-After'' = Some ''10''"
    by (simp add: retryAfterResponse_def headers_get_def headers_has_def headers_values_def
        toLowerCase_def toLowerCase_char_def)
  have lower: "10000 \<le> getRetryDelay defaultSettings networkError (Some ?resp) 1"
    using getRetryDelay_layered_maximum [of defaultSettings networkError "Some ?resp" 1] h
    by blast
  have "getRetryDelay defaultSettings networkError (Some ?resp) 1
      = computeDelay_spec defaultSettings (Some ?resp) 1"
    using getRetryDelay_layered_maximum [of defaultSettings networkError "Some ?resp" 1]
    by blast
  also have "\<dots> = 10000"
    by (simp add: computeDelay_spec_def retryAfterSeconds_def isRateLimit_def h parseInt_10
        defaultSettings_def)
  finally show ?thesis
    using h lower by (simp add: defaultSettings_def)
qed

text \<open>
  Claim C5. For a fixed error, response and policy (a policy's durations are not negative:
  \<open>retryDelay\<close> and \<open>rateLimitDelay\<close> are at least 0), \<open>getRetryDelay\<close> is monotone in the
  attempt number.
\<close>

theorem getRetryDelay_monotone:
  assumes "a \<le> b" and "0 \<le> retryDelay s" and "0 \<le> rateLimitDelay s"
  shows "getRetryDelay s e resp a \<le> getRetryDelay s e resp b"
proof -
  have p1: "(3 / 2 :: real) ^ a \<le> (3 / 2) ^ b"
    using assms(1) by (simp add: power_increasing)
  have p2: "(6 / 5 :: real) ^ a \<le> (6 / 5) ^ b"
    using assms(1) by (simp add: power_increasing)
  have m1: "rateLimitDelay s * (3 / 2) ^ a \<le> rateLimitDelay s * (3 / 2) ^ b"
    using p1 assms(3) by (rule mult_left_mono)
  have m2: "retryDelay s * (6 / 5) ^ a \<le> retryDelay s * (6 / 5) ^ b"
    using p2 assms(2) by (rule mult_left_mono)
  show ?thesis
    using m1 m2 by (auto simp: getRetryDelay_def Let_def split: option.splits)
qed

text \<open>
  Claim C5, at a concrete input: after a 429 the delay grows from 7500 at attempt 1 to
  16875 at attempt 3.
\<close>

theorem getRetryDelay_monotone_witness:
  "getRetryDelay defaultSettings networkError (Some (plainResponse 429 ''Too Many Requests'')) 1
     = 7500
   \<and> getRetryDelay defaultSettings networkError (Some (plainResponse 429 ''Too Many Requests'')) 3
     = 16875
   \<and> getRetryDelay defaultSettings networkError (Some (plainResponse 429 ''Too Many Requests'')) 1
     \<le> getRetryDelay defaultSettings networkError (Some (plainResponse 429 ''Too Many Requests'')) 3"
proof -
  have le: "(1::nat) \<le> 3" by simp
  have nn: "0 \<le> retryDelay defaultSettings" "0 \<le> rateLimitDelay defaultSettings"
    by (simp_all add: defaultSettings_def)
  have v1: "getRetryDelay defaultSettings networkError
      (Some (plainResponse 429 ''Too Many Requests'')) 1 = 7500"
    by (simp add: getRetryDelay_def defaultSettings_def plainResponse_def headers_has_def
        headers_values_def Let_def)
  have v3: "getRetryDelay defaultSettings networkError
      (Some (plainResponse 429 ''Too Many Requests'')) 3 = 16875"
    by (simp add: getRetryDelay_def defaultSettings_def plainResponse_def headers_has_def
        headers_values_def Let_def power3_eq_cube)
  show ?thesis
    using getRetryDelay_monotone [OF le nn, of networkError
        "Some (plainResponse 429 ''Too Many Requests'')"] v1 v3
    by simp
qed

subsection \<open>Client errors\<close>

text \<open>
  Claim C3. An attempt that resolves with a status in 400-499 other than 429 ends the call
  at once: the response is returned as it is, and the only effect of the iteration is its
  call of the original fetch (no toast, no wait, no error notification, no later attempt).
  In particular a 403 on the first attempt is returned after that one call.
\<close>

theorem client_error_returned:
  "(attempt st \<le> maxRetries s \<and> \<not> abortedAtLoopHead (envs (attempt st))
      \<and> raceResult s (envs (attempt st)) = Inr r \<and> clientError r
    \<longrightarrow> retryLoop s url envs st = (Return r, trace st @ [OriginalFetch (attempt st)]))
   \<and> (enabled s \<and> \<not> abortedAtLoopHead (envs 0) \<and> raceResult s (envs 0) = Inr r
      \<and> status r = 403
    \<longrightarrow> window_fetch s url envs = (Return r, [OriginalFetch 0]))"
proof (intro conjI impI)
  assume a: "attempt st \<le> maxRetries s \<and> \<not> abortedAtLoopHead (envs (attempt st))
      \<and> raceResult s (envs (attempt st)) = Inr r \<and> clientError r"
  then have "iteration s url (envs (attempt st)) st =
     Done (Return r)
       (st\<lparr>trace := trace st @ [OriginalFetch (attempt st)], lastResponse := Some r\<rparr>)"
    by (simp add: iteration_clientError)
  with a show "retryLoop s url envs st = (Return r, trace st @ [OriginalFetch (attempt st)])"
    by (subst retryLoop.simps) simp
next
  assume a: "enabled s \<and> \<not> abortedAtLoopHead (envs 0) \<and> raceResult s (envs 0) = Inr r
      \<and> status r = 403"
  have "clientError r" using a by (simp add: clientError_def)
  with a have "iteration s url (envs (attempt initialState)) initialState =
     Done (Return r)
       (initialState\<lparr>trace := trace initialState @ [OriginalFetch (attempt initialState)],
                     lastResponse := Some r\<rparr>)"
    by (simp add: iteration_clientError initialState_def)
  then have "retryLoop s url envs initialState = (Return r, [OriginalFetch 0])"
    by (subst retryLoop.simps) (simp add: initialState_def)
  with a show "window_fetch s url envs = (Return r, [OriginalFetch 0])"
    by (simp add: window_fetch_def)
qed

text \<open>
  Claim C3, at a concrete input: a 403 on the first attempt, and a 403 on the fourth
  attempt of a call.
\<close>

theorem client_error_returned_witness:
  "window_fetch defaultSettings ''/api/characters/all'' forbiddenServer
     = (Return (plainResponse 403 ''Forbidden''), [OriginalFetch 0])
   \<and> retryLoop defaultSettings ''/api/characters/all'' forbiddenServer
        (afterTwoFailures\<lparr>attempt := 3\<rparr>)
     = (Return (plainResponse 403 ''Forbidden''),
        trace afterTwoFailures @ [OriginalFetch 3])"
proof -
  have race: "raceResult defaultSettings (forbiddenServer k)
      = Inr (plainResponse 403 ''Forbidden'')" for k
    by (simp add: forbiddenServer_def raceResult_settlesWith)
  have kind: "clientError (plainResponse 403 ''Forbidden'')"
      "status (plainResponse 403 ''Forbidden'') = 403"
    by (simp_all add: clientError_def plainResponse_def)
  have quiet: "\<not> abortedAtLoopHead (forbiddenServer k)" for k
    by (simp add: forbiddenServer_def quiet_settlesWith)
  have budget: "enabled defaultSettings"
      "attempt (afterTwoFailures\<lparr>attempt := 3\<rparr>) \<le> maxRetries defaultSettings"
    by (simp_all add: defaultSettings_def)
  show ?thesis
    using client_error_returned [where st = "afterTwoFailures\<lparr>attempt := 3\<rparr>"
        and s = defaultSettings and envs = forbiddenServer
        and r = "plainResponse 403 ''Forbidden''" and url = "''/api/characters/all''"]
      race kind quiet budget
    by simp
qed

subsection \<open>Abort by the caller\<close>

text \<open>
  Claim C4 does not hold of the code for an abort while an attempt is in flight. The
  \<open>catch\<close> clause rethrows only a value named \<open>AbortError\<close> (lines 804-809), whereas the
  handler of line 658 makes the original fetch reject with the string \<open>User aborted\<close>, which
  has no name and falls to the branch of the unknown errors. With two answers 500 and the
  caller's abort during the third attempt of six, the loop shows the retry toast and waits
  7200 ms before the head of the next iteration throws the abort error; when the third
  attempt is the last one, the error notification is shown and the string is thrown. In
  both runs no fourth attempt is started.
\<close>

theorem caller_abort_in_flight_retried:
  "window_fetch defaultSettings ''/api/ping'' abortAtThird =
     (Throw (Some abortError),
      [OriginalFetch 0, Sleep 5000,
       OriginalFetch 1,
       ShowRetryToast 1 5 (newError ''Server error (500): Internal Server Error''),
       Sleep 6000,
       OriginalFetch 2, ShowRetryToast 2 5 userAbortReason, Sleep 7200])
   \<and> window_fetch twoRetrySettings ''/api/ping'' abortAtThird =
     (Throw (Some userAbortReason),
      [OriginalFetch 0, Sleep 5000,
       OriginalFetch 1,
       ShowRetryToast 1 2 (newError ''Server error (500): Internal Server Error''),
       Sleep 6000,
       OriginalFetch 2,
       ShowErrorNotification (Some userAbortReason)
         (Some (plainResponse 500 ''Internal Server Error''))])"
  by (simp add: eval_defs abortAtThird_def twoRetrySettings_def userAbortReason_def
      abortError_def power2_eq_square)

subsection \<open>The thinking timeout\<close>

text \<open>
  Claim C6 as stated fails: with \<open>enableThinkingTimeout\<close> set and \<open>thinkingTimeout = 0\<close> the
  timer is started all the same, with a delay of 0 ms, and an original fetch that settles
  after 100 ms loses the race and is classified as a timeout.
\<close>

theorem zero_thinking_timeout_counterexample:
  "enableThinkingTimeout zeroTimeoutSettings \<and> thinkingTimeout zeroTimeoutSettings = 0
   \<and> timeoutPromise zeroTimeoutSettings = Some 0
   \<and> raceResult zeroTimeoutSettings (settlesWith (Inr (plainResponse 200 ''OK'')))
       = Inl timeoutError"
  by (simp add: zeroTimeoutSettings_def defaultSettings_def timeoutPromise_def raceResult_def
      settlesWith_def)

text \<open>
  Claim C6, amended. An attempt is raced against the thinking-timeout timer exactly when
  \<open>enableThinkingTimeout\<close> is set, whatever the value of \<open>thinkingTimeout\<close>: without the flag
  the original fetch is awaited alone; with it, the attempt is a timeout failure as soon as
  the original fetch settles later than \<open>thinkingTimeout\<close> milliseconds, also for
  \<open>thinkingTimeout = 0\<close>.
\<close>

theorem thinking_timeout_gate:
  "(timeoutPromise s \<noteq> None \<longleftrightarrow> enableThinkingTimeout s)
   \<and> (\<not> enableThinkingTimeout s \<longrightarrow> raceResult s env = fetchSettles env)
   \<and> (enableThinkingTimeout s \<longrightarrow>
        raceResult s env =
          (if thinkingTimeout s < fetchLatency env then Inl timeoutError
           else fetchSettles env))"
  by (simp add: timeoutPromise_def raceResult_def)

text \<open>
  Claim C6 as amended, at concrete inputs: the flag off with a timeout of 0, the flag on
  with a timeout of 0, and the default settings.
\<close>

theorem thinking_timeout_gate_witness:
  "raceResult (defaultSettings\<lparr>enableThinkingTimeout := False, thinkingTimeout := 0\<rparr>)
       (settlesWith (Inr (plainResponse 200 ''OK''))) = Inr (plainResponse 200 ''OK'')
   \<and> raceResult zeroTimeoutSettings (settlesWith (Inr (plainResponse 200 ''OK'')))
       = Inl timeoutError
   \<and> raceResult defaultSettings (settlesWith (Inr (plainResponse 200 ''OK'')))
       = Inr (plainResponse 200 ''OK'')"
  using thinking_timeout_gate
      [of "defaultSettings\<lparr>enableThinkingTimeout := False, thinkingTimeout := 0\<rparr>"
        "settlesWith (Inr (plainResponse 200 ''OK''))"]
    thinking_timeout_gate [of zeroTimeoutSettings "settlesWith (Inr (plainResponse 200 ''OK''))"]
    thinking_timeout_gate [of defaultSettings "settlesWith (Inr (plainResponse 200 ''OK''))"]
  by (simp add: zeroTimeoutSettings_def defaultSettings_def settlesWith_def)

subsection \<open>The retry toast\<close>

text \<open>
  Claim C7 as stated fails: with \<open>maxRetries = 1\<close>, a 500 on the first attempt is followed
  by the wait of 5000 ms and the second attempt, and \<open>showRetryToast\<close> is never called.
\<close>

theorem first_retry_toast_counterexample:
  "window_fetch oneRetrySettings ''/api/ping'' failsOnce
     = (Return (plainResponse 200 ''OK''), [OriginalFetch 0, Sleep 5000, OriginalFetch 1])
   \<and> filter isShowRetryToast (snd (window_fetch oneRetrySettings ''/api/ping'' failsOnce)) = []"
  by (simp add: eval_defs oneRetrySettings_def failsOnce_def)

text \<open>
  Claim C7, amended. A retryable failure with \<open>attempt < maxRetries\<close> is followed by the
  wait of \<open>getRetryDelay\<close> milliseconds; when \<open>attempt > 0\<close> the retry toast is shown just
  before the wait, with the attempt number, \<open>maxRetries\<close> and the error; after the failure of
  the first attempt (\<open>attempt = 0\<close>) the wait comes with no toast.
\<close>

theorem retry_toast_guard:
  assumes "\<not> abortedAtLoopHead env" and "retryableFailure env (raceResult s env)"
    and "attempt st < maxRetries s"
  shows "\<exists>st'. iteration s url env st = Next st' \<and> attempt st' = Suc (attempt st)
     \<and> lastResponse st' =
          (case raceResult s env of Inl err \<Rightarrow> lastResponse st | Inr r \<Rightarrow> Some r)
     \<and> trace st' = trace st @ [OriginalFetch (attempt st)]
         @ (if 0 < attempt st
            then [ShowRetryToast (attempt st) (maxRetries s) (failureError (raceResult s env))]
            else [])
         @ [Sleep (getRetryDelay s (failureError (raceResult s env)) (lastResponse st')
                     (attempt st))]"
proof -
  from iteration_retryable_Next [OF assms, of url] obtain st' where
    "iteration s url env st = Next st'" "attempt st' = Suc (attempt st)"
    "trace st' = trace st @ [OriginalFetch (attempt st)]
          @ fst (handleRetry s (failureError (raceResult s env)) (lastResponse st') (attempt st))"
    "lastResponse st' =
          (case raceResult s env of Inl err \<Rightarrow> lastResponse st | Inr r \<Rightarrow> Some r)"
    by blast
  then show ?thesis by (auto simp: handleRetry_def Let_def)
qed

text \<open>
  Claim C7 as amended, at concrete inputs: a 500 on the third attempt (toast, then a wait
  of 7200 ms) and a 500 on the first attempt (the wait of 5000 ms alone).
\<close>

theorem retry_toast_guard_witness:
  "(\<exists>st'. iteration defaultSettings ''/api/ping''
            (settlesWith (Inr (plainResponse 500 ''Internal Server Error''))) afterTwoFailures
          = Next st'
        \<and> trace st' = trace afterTwoFailures
            @ [OriginalFetch 2,
               ShowRetryToast 2 5 (newError ''Server error (500): Internal Server Error''),
               Sleep 7200])
   \<and> (\<exists>st'. iteration defaultSettings ''/api/ping''
            (settlesWith (Inr (plainResponse 500 ''Internal Server Error''))) initialState
          = Next st'
        \<and> trace st' = [OriginalFetch 0, Sleep 5000])"
proof -
  let ?env = "settlesWith (Inr (plainResponse 500 ''Internal Server Error''))"
  have fails: "retryableFailure ?env (raceResult defaultSettings ?env)"
    by (simp add: raceResult_settlesWith retryableFailure_def plainResponse_def)
  have b2: "attempt afterTwoFailures < maxRetries defaultSettings"
    and b0: "attempt initialState < maxRetries defaultSettings"
    by (simp_all add: afterTwoFailures_def initialState_def defaultSettings_def)
  have err: "failureError (raceResult defaultSettings ?env)
      = newError ''Server error (500): Internal Server Error''"
    by (simp add: raceResult_settlesWith failureError_def plainResponse_def
        string_of_nat.simps digit_char_def)
  have d2: "getRetryDelay defaultSettings e
      (Some (plainResponse 500 ''Internal Server Error'')) 2 = 7200" for e
    by (simp add: getRetryDelay_def defaultSettings_def plainResponse_def headers_has_def
        headers_values_def Let_def power2_eq_square)
  have d0: "getRetryDelay defaultSettings e
      (Some (plainResponse 500 ''Internal Server Error'')) 0 = 5000" for e
    by (simp add: getRetryDelay_def defaultSettings_def plainResponse_def headers_has_def
        headers_values_def Let_def)
  have m: "maxRetries defaultSettings = 5"
    by (simp add: defaultSettings_def)
  have c2: "\<exists>st'. iteration defaultSettings ''/api/ping'' ?env afterTwoFailures = Next st'
        \<and> trace st' = trace afterTwoFailures
            @ [OriginalFetch 2,
               ShowRetryToast 2 5 (newError ''Server error (500): Internal Server Error''),
               Sleep 7200]"
  proof -
    from retry_toast_guard [OF quiet_settlesWith fails b2, of "''/api/ping''"]
    obtain st' where it: "iteration defaultSettings ''/api/ping'' ?env afterTwoFailures = Next st'"
      and lr: "lastResponse st' = Some (plainResponse 500 ''Internal Server Error'')"
      and tr: "trace st' = trace afterTwoFailures @ [OriginalFetch (attempt afterTwoFailures)]
         @ (if 0 < attempt afterTwoFailures
            then [ShowRetryToast (attempt afterTwoFailures) (maxRetries defaultSettings)
                    (newError ''Server error (500): Internal Server Error'')]
            else [])
         @ [Sleep (getRetryDelay defaultSettings
                     (newError ''Server error (500): Internal Server Error'')
                     (lastResponse st') (attempt afterTwoFailures))]"
      unfolding err by (auto simp: raceResult_settlesWith)
    have at: "attempt afterTwoFailures = 2"
      by (simp add: afterTwoFailures_def)
    from tr have "trace st' = trace afterTwoFailures
            @ [OriginalFetch 2,
               ShowRetryToast 2 5 (newError ''Server error (500): Internal Server Error''),
               Sleep 7200]"
      unfolding lr at m d2 by simp
    with it show ?thesis by blast
  qed
  have c0: "\<exists>st'. iteration defaultSettings ''/api/ping'' ?env initialState = Next st'
        \<and> trace st' = [OriginalFetch 0, Sleep 5000]"
  proof -
    from retry_toast_guard [OF quiet_settlesWith fails b0, of "''/api/ping''"]
    obtain st' where it: "iteration defaultSettings ''/api/ping'' ?env initialState = Next st'"
      and lr: "lastResponse st' = Some (plainResponse 500 ''Internal Server Error'')"
      and tr: "trace st' = trace initialState @ [OriginalFetch (attempt initialState)]
         @ (if 0 < attempt initialState
            then [ShowRetryToast (attempt initialState) (maxRetries defaultSettings)
                    (newError ''Server error (500): Internal Server Error'')]
            else [])
         @ [Sleep (getRetryDelay defaultSettings
                     (newError ''Server error (500): Internal Server Error'')
                     (lastResponse st') (attempt initialState))]"
      unfolding err by (auto simp: raceResult_settlesWith)
    have at: "attempt initialState = 0" "trace initialState = []"
      by (simp_all add: initialState_def)
    from tr have "trace st' = [OriginalFetch 0, Sleep 5000]"
      unfolding lr at d0 by simp
    with it show ?thesis by blast
  qed
  show ?thesis using c2 c0 by blast
qed

subsection \<open>Stream inactivity\<close>

text \<open>
  Claim C8 does not hold of the code: \<open>isResponseInvalid\<close> never reports a response as
  invalid. For every setting, every value of \<open>streamTimeoutId\<close>, every response and every
  URL its result is \<open>{invalid: false, reason: ''}\<close>: the body of its \<open>try\<close> cannot throw, so
  the only branch that reports \<open>stream_inactivity\<close> is unreachable, and no timer on the body
  of the response exists.
\<close>

theorem isResponseInvalid_never_invalid:
  "isResponseInvalid s tid response url = (False, [])"
  by (simp add: isResponseInvalid_def streamCheck_def Let_def)

subsection \<open>The rate-limit scenario\<close>

text \<open>
  Claim C9 as stated fails: under the policy of the scenario the third 429 exhausts the
  budget, so the call does not return the 200 response, and one retry toast is shown, not
  two.
\<close>

theorem scenario_429_counterexample:
  "fst (window_fetch scenarioPolicy ''/api/backends/chat-completions/generate'' scenarioServer)
     \<noteq> Return (plainResponse 200 ''OK'')
   \<and> length (filter isShowRetryToast
        (snd (window_fetch scenarioPolicy ''/api/backends/chat-completions/generate''
                scenarioServer)))
     \<noteq> 2"
  by (simp add: eval_defs scenarioPolicy_def scenarioServer_def)

text \<open>
  Claim C9, amended. Under a policy with \<open>maxRetries = 2\<close>, \<open>retryDelay = 1000\<close>,
  \<open>rateLimitDelay = 1000\<close> and \<open>minRetryDelay = 0\<close>, when the first three attempts are
  answered 429 (without a \<open>Retry-After\<close> header), the patched fetch makes exactly three
  attempts with waits of 1000 ms and 1500 ms between them; one retry toast is shown, before
  the second wait; after the third 429 the error notification is called and the rate-limit
  error is thrown. A fourth answer is never asked for.
\<close>

theorem scenario_429_exhausts:
  assumes "enabled s" and "maxRetries s = 2" and "retryDelay s = 1000"
    and "rateLimitDelay s = 1000" and "minRetryDelay s = 0"
    and "\<forall>k \<le> 2. \<not> abortedAtLoopHead (envs k) \<and> raceResult s (envs k) = Inr (r k)
           \<and> status (r k) = 429 \<and> \<not> headers_has (headers (r k)) ''Retry-After''"
  shows "window_fetch s url envs =
     (Throw (Some (newError (''Rate limited (429): '' @ statusText (r 2)))),
      [OriginalFetch 0, Sleep 1000,
       OriginalFetch 1,
       ShowRetryToast 1 2 (newError (''Rate limited (429): '' @ statusText (r 1))),
       Sleep 1500,
       OriginalFetch 2,
       ShowErrorNotification (Some (newError (''Rate limited (429): '' @ statusText (r 2))))
         (Some (r 2))])"
proof -
  have e0: "\<not> abortedAtLoopHead (envs 0)" "raceResult s (envs 0) = Inr (r 0)"
      "status (r 0) = 429" "\<not> headers_has (headers (r 0)) ''Retry-After''"
    and e1: "\<not> abortedAtLoopHead (envs (Suc 0))" "raceResult s (envs (Suc 0)) = Inr (r (Suc 0))"
      "status (r (Suc 0)) = 429" "\<not> headers_has (headers (r (Suc 0))) ''Retry-After''"
    and e2: "\<not> abortedAtLoopHead (envs 2)" "raceResult s (envs 2) = Inr (r 2)"
      "status (r 2) = 429" "\<not> headers_has (headers (r 2)) ''Retry-After''"
    using assms(6) by simp_all
  show ?thesis
    using assms(1-5) e0 e1 e2
    by (simp add: window_fetch_def initialState_def retryLoop.simps iteration_def tryBlock_def
        awaitHandleRetry_def handleRetry_def allAttemptsFailed_def ok_def getRetryDelay_def
        Let_def numeral_2_eq_2)
qed

text \<open>Claim C9 as amended, on the server of the scenario.\<close>

theorem scenario_429_exhausts_witness:
  "window_fetch scenarioPolicy ''/api/backends/chat-completions/generate'' scenarioServer =
     (Throw (Some (newError ''Rate limited (429): Too Many Requests'')),
      [OriginalFetch 0, Sleep 1000,
       OriginalFetch 1, ShowRetryToast 1 2 (newError ''Rate limited (429): Too Many Requests''),
       Sleep 1500, OriginalFetch 2,
       ShowErrorNotification (Some (newError ''Rate limited (429): Too Many Requests''))
         (Some (plainResponse 429 ''Too Many Requests''))])"
proof -
  have "\<forall>k \<le> 2. \<not> abortedAtLoopHead (scenarioServer k)
      \<and> raceResult scenarioPolicy (scenarioServer k) = Inr (plainResponse 429 ''Too Many Requests'')
      \<and> status (plainResponse 429 ''Too Many Requests'') = 429
      \<and> \<not> headers_has (headers (plainResponse 429 ''Too Many Requests'')) ''Retry-After''"
    by (simp add: scenarioServer_def scenarioPolicy_def defaultSettings_def settlesWith_def
        raceResult_def timeoutPromise_def plainResponse_def headers_has_def headers_values_def)
  from scenario_429_exhausts [of scenarioPolicy scenarioServer
      "\<lambda>k. plainResponse 429 ''Too Many Requests''"
      "''/api/backends/chat-completions/generate''", OF _ _ _ _ _ this]
  show ?thesis
    by (simp add: scenarioPolicy_def defaultSettings_def plainResponse_def)
qed

subsection \<open>The response behind a delay\<close>

text \<open>
  Claim C10 as stated fails for an attempt that throws because of an unexpected status:
  after a 429 with \<open>Retry-After: 20\<close>, a 304 on the next attempt is followed by a wait of
  6000 ms, the generic schedule computed from the 304 itself, whereas the earlier 429
  would have given 20000 ms.
\<close>

theorem stale_response_counterexample:
  "window_fetch defaultSettings ''/api/ping'' staleServer =
     (Return (plainResponse 200 ''OK''),
      [OriginalFetch 0, Sleep 20000,
       OriginalFetch 1, ShowRetryToast 1 5 (newError ''HTTP 304: Not Modified''), Sleep 6000,
       OriginalFetch 2])
   \<and> getRetryDelay defaultSettings (newError ''HTTP 304: Not Modified'')
         (Some (retryAfterResponse 429 ''Too Many Requests'' ''20'')) 1 = 20000"
  by (simp add: eval_defs staleServer_def)

text \<open>
  Claim C10, amended. When an attempt with budget left rejects without a response (the
  thinking timeout, a network failure) and \<open>lastResponse\<close> holds the response \<open>prev\<close> of an
  earlier attempt, the wait before the next attempt is \<open>getRetryDelay\<close> of that earlier
  response, which stays in \<open>lastResponse\<close>; if \<open>prev\<close> was a 429 the delay is at least
  \<open>rateLimitDelay * 1.5^attempt\<close>. When the attempt throws because of an unexpected status,
  the delay is computed from the response of that very attempt. An attempt that resolves
  with a 429 or a status of 500 and above leaves its response in \<open>lastResponse\<close>.
\<close>

theorem stale_response_delay:
  assumes "attempt st < maxRetries s" and "\<not> abortedAtLoopHead env"
  shows "(raceResult s env = Inl err \<and> \<not> callerAbort env err \<and> lastResponse st = Some prev
      \<longrightarrow> (\<exists>st'. iteration s url env st = Next st' \<and> lastResponse st' = Some prev
            \<and> trace st' = trace st @ [OriginalFetch (attempt st)]
                 @ fst (handleRetry s err (Some prev) (attempt st)))
          \<and> last (fst (handleRetry s err (Some prev) (attempt st)))
               = Sleep (getRetryDelay s err (Some prev) (attempt st))
          \<and> (status prev = 429
               \<longrightarrow> rateLimitDelay s * (3 / 2) ^ attempt st
                     \<le> getRetryDelay s err (Some prev) (attempt st)))
    \<and> (raceResult s env = Inr r \<and> unexpectedStatus r
      \<longrightarrow> (\<exists>st'. iteration s url env st = Next st' \<and> lastResponse st' = Some r
            \<and> trace st' = trace st @ [OriginalFetch (attempt st)]
                 @ fst (handleRetry s
                          (newError (''HTTP '' @ string_of_nat (status r) @ '': '' @ statusText r))
                          (Some r) (attempt st))))
    \<and> (raceResult s env = Inr r \<and> (status r = 429 \<or> status r \<ge> 500)
      \<longrightarrow> (\<exists>st'. iteration s url env st = Next st' \<and> lastResponse st' = Some r))"
proof (intro conjI impI)
  assume a: "raceResult s env = Inl err \<and> \<not> callerAbort env err
      \<and> lastResponse st = Some prev"
  with assms show "\<exists>st'. iteration s url env st = Next st' \<and> lastResponse st' = Some prev
            \<and> trace st' = trace st @ [OriginalFetch (attempt st)]
                 @ fst (handleRetry s err (Some prev) (attempt st))"
    by (simp add: iteration_def tryBlock_def catchClause_def callerAbort_def Let_def)
  show "last (fst (handleRetry s err (Some prev) (attempt st)))
               = Sleep (getRetryDelay s err (Some prev) (attempt st))"
    by (simp add: handleRetry_def Let_def)
  assume "status prev = 429"
  then show "rateLimitDelay s * (3 / 2) ^ attempt st
      \<le> getRetryDelay s err (Some prev) (attempt st)"
    by (simp add: getRetryDelay_def Let_def split: option.splits)
next
  assume "raceResult s env = Inr r \<and> unexpectedStatus r"
  with assms show "\<exists>st'. iteration s url env st = Next st' \<and> lastResponse st' = Some r
            \<and> trace st' = trace st @ [OriginalFetch (attempt st)]
                 @ fst (handleRetry s
                          (newError (''HTTP '' @ string_of_nat (status r) @ '': '' @ statusText r))
                          (Some r) (attempt st))"
    by (simp add: iteration_def tryBlock_def catchClause_def unexpectedStatus_def newError_def
        Let_def)
next
  assume "raceResult s env = Inr r \<and> (status r = 429 \<or> status r \<ge> 500)"
  with assms show "\<exists>st'. iteration s url env st = Next st' \<and> lastResponse st' = Some r"
    by (auto simp: iteration_def tryBlock_def ok_def Let_def)
qed

text \<open>
  Claim C10 as amended, at concrete inputs: a 429 with \<open>Retry-After: 20\<close> on the first
  attempt stays in \<open>lastResponse\<close>; a network failure on the second attempt then waits the
  20000 ms of that header; a 304 on the second attempt waits 6000 ms.
\<close>

theorem stale_response_delay_witness:
  "(\<exists>st'. iteration defaultSettings ''/api/ping''
             (settlesWith (Inr (retryAfterResponse 429 ''Too Many Requests'' ''20''))) initialState
           = Next st'
         \<and> lastResponse st' = Some (retryAfterResponse 429 ''Too Many Requests'' ''20''))
   \<and> (\<exists>st'. iteration defaultSettings ''/api/ping'' (settlesWith (Inl networkError)) afterRateLimit
           = Next st'
         \<and> trace st' = [OriginalFetch 0, Sleep 20000, OriginalFetch 1,
                         ShowRetryToast 1 5 networkError, Sleep 20000])
   \<and> (\<exists>st'. iteration defaultSettings ''/api/ping''
             (settlesWith (Inr (plainResponse 304 ''Not Modified''))) afterRateLimit
           = Next st'
         \<and> trace st' = [OriginalFetch 0, Sleep 20000, OriginalFetch 1,
                         ShowRetryToast 1 5 (newError ''HTTP 304: Not Modified''), Sleep 6000])"
proof -
  let ?limited = "retryAfterResponse 429 ''Too Many Requests'' ''20''"
  let ?unmodified = "plainResponse 304 ''Not Modified''"
  have b0: "attempt initialState < maxRetries defaultSettings"
    and b1: "attempt afterRateLimit < maxRetries defaultSettings"
    by (simp_all add: initialState_def afterRateLimit_def defaultSettings_def)
  have h1: "raceResult defaultSettings (settlesWith (Inr ?limited)) = Inr ?limited
      \<and> (status ?limited = 429 \<or> status ?limited \<ge> 500)"
    by (simp add: raceResult_settlesWith retryAfterResponse_def)
  have h2: "raceResult defaultSettings (settlesWith (Inl networkError)) = Inl networkError
      \<and> \<not> callerAbort (settlesWith (Inl networkError)) networkError \<and> lastResponse afterRateLimit = Some ?limited"
    by (simp add: raceResult_settlesWith networkError_def afterRateLimit_def callerAbort_def)
  have h3: "raceResult defaultSettings (settlesWith (Inr ?unmodified)) = Inr ?unmodified
      \<and> unexpectedStatus ?unmodified"
    by (simp add: raceResult_settlesWith unexpectedStatus_def ok_def plainResponse_def)
  have d1: "fst (handleRetry defaultSettings networkError (Some ?limited) (attempt afterRateLimit))
      = [ShowRetryToast 1 5 networkError, Sleep 20000]"
    by (simp add: eval_defs afterRateLimit_def)
  have d2: "fst (handleRetry defaultSettings
         (newError (''HTTP '' @ string_of_nat (status ?unmodified) @ '': ''
                      @ statusText ?unmodified))
         (Some ?unmodified) (attempt afterRateLimit))
      = [ShowRetryToast 1 5 (newError ''HTTP 304: Not Modified''), Sleep 6000]"
    by (simp add: eval_defs afterRateLimit_def)
  have c1: "\<exists>st'. iteration defaultSettings ''/api/ping'' (settlesWith (Inr ?limited)) initialState
           = Next st'
         \<and> lastResponse st' = Some ?limited"
    using stale_response_delay [where st = initialState and s = defaultSettings
        and env = "settlesWith (Inr ?limited)" and err = networkError and prev = ?limited
        and r = ?limited and url = "''/api/ping''"] b0 quiet_settlesWith h1
    by blast
  have c2: "\<exists>st'. iteration defaultSettings ''/api/ping'' (settlesWith (Inl networkError))
             afterRateLimit = Next st'
         \<and> trace st' = trace afterRateLimit @ [OriginalFetch (attempt afterRateLimit)]
             @ fst (handleRetry defaultSettings networkError (Some ?limited)
                      (attempt afterRateLimit))"
    using stale_response_delay [where st = afterRateLimit and s = defaultSettings
        and env = "settlesWith (Inl networkError)" and err = networkError and prev = ?limited
        and r = ?unmodified and url = "''/api/ping''"] b1 quiet_settlesWith h2
    by blast
  have c3: "\<exists>st'. iteration defaultSettings ''/api/ping'' (settlesWith (Inr ?unmodified))
             afterRateLimit = Next st'
         \<and> trace st' = trace afterRateLimit @ [OriginalFetch (attempt afterRateLimit)]
             @ fst (handleRetry defaultSettings
                 (newError (''HTTP '' @ string_of_nat (status ?unmodified) @ '': ''
                      @ statusText ?unmodified))
                 (Some ?unmodified) (attempt afterRateLimit))"
    using stale_response_delay [where st = afterRateLimit and s = defaultSettings
        and env = "settlesWith (Inr ?unmodified)" and err = networkError
        and prev = ?limited and r = ?unmodified and url = "''/api/ping''"]
      b1 quiet_settlesWith h3
    by blast
  show ?thesis
    using c1 c2 c3 unfolding d1 d2 by (simp add: afterRateLimit_def)
qed

end
